theory Spec2Isabelle
  imports Complex_Main "HOL-Library.Sublist"
begin

section \<open>Python values and exceptions\<close>

text \<open>
  The exceptions that the callbacks of \<^verbatim>\<open>app.py\<close> can raise are values of
  \<open>py_error\<close>; a callback returns \<open>py_error + 'a\<close>, with \<open>Inl\<close> for a raised
  exception.
\<close>

datatype py_error = TypeError | KeyError | IndexError | ValueError | OSError

text \<open>
  Python's \<^verbatim>\<open>needle in hay\<close> on two \<^verbatim>\<open>str\<close> values: \<open>needle\<close> occurs in
  \<open>hay\<close> as a contiguous run of characters.
\<close>

fun str_contains :: "string \<Rightarrow> string \<Rightarrow> bool" where
  "str_contains needle [] = (needle = [])"
| "str_contains needle (c # cs) = (prefix needle (c # cs) \<or> str_contains needle cs)"

text \<open>
  \<^verbatim>\<open>needle in obj\<close> where \<open>obj\<close> may be \<^verbatim>\<open>None\<close>: the membership test on
  \<^verbatim>\<open>None\<close> raises \<^verbatim>\<open>TypeError\<close>.
\<close>

definition py_in :: "string \<Rightarrow> string option \<Rightarrow> py_error + bool" where
  "py_in needle obj =
     (case obj of None \<Rightarrow> Inl TypeError | Some s \<Rightarrow> Inr (str_contains needle s))"

text \<open>\<^verbatim>\<open>xs[i]\<close> on a list, for an index that is never negative.\<close>

definition py_index :: "'a list \<Rightarrow> nat \<Rightarrow> py_error + 'a" where
  "py_index xs i = (if i < length xs then Inr (xs ! i) else Inl IndexError)"

text \<open>\<^verbatim>\<open>d[k]\<close> on a dict.\<close>

definition py_getitem :: "('k \<rightharpoonup> 'v) \<Rightarrow> 'k \<Rightarrow> py_error + 'v" where
  "py_getitem d k = (case d k of None \<Rightarrow> Inl KeyError | Some v \<Rightarrow> Inr v)"

section \<open>Cursor reconciliation: \<^verbatim>\<open>sync_inputs\<close>\<close>

text \<open>
  \<^verbatim>\<open>dash.callback_context.triggered\<close> is the list of the properties that fired the
  callback; each entry carries its \<^verbatim>\<open>prop_id\<close>. The list is falsy exactly when no
  property fired, which is the empty list here.
\<close>

record triggered_prop =
  prop_id :: string

text \<open>
  \<^verbatim>\<open>clickData\<close> is \<^verbatim>\<open>None\<close> or a dict whose key \<^verbatim>\<open>'points'\<close> holds a list
  of dicts, one per clicked point.
\<close>

type_synonym 'v point = "string \<rightharpoonup> 'v"
type_synonym 'v click_data = "string \<rightharpoonup> 'v point list"

text \<open>\<^verbatim>\<open>ctx.triggered[0]['prop_id'] if ctx.triggered else None\<close>\<close>

definition trigger_id_of :: "triggered_prop list \<Rightarrow> string option" where
  "trigger_id_of triggered =
     (case triggered of [] \<Rightarrow> None | t # _ \<Rightarrow> Some (prop_id t))"

text \<open>\<^verbatim>\<open>click_data['points'][0]['x']\<close>; subscripting \<^verbatim>\<open>None\<close> raises \<^verbatim>\<open>TypeError\<close>.\<close>

definition clicked_x :: "'v click_data option \<Rightarrow> py_error + 'v" where
  "clicked_x click_data =
     (case click_data of
        None \<Rightarrow> Inl TypeError
      | Some d \<Rightarrow>
          (case py_getitem d ''points'' of
             Inl e \<Rightarrow> Inl e
           | Inr points \<Rightarrow>
               (case py_index points 0 of
                  Inl e \<Rightarrow> Inl e
                | Inr p \<Rightarrow> py_getitem p ''x'')))"

text \<open>\<^verbatim>\<open>str(obj)\<close> for a string or \<^verbatim>\<open>None\<close>.\<close>

definition py_str :: "string option \<Rightarrow> string" where
  "py_str obj = (case obj of None \<Rightarrow> ''None'' | Some s \<Rightarrow> s)"

text \<open>
  The callback. Its result is the pair (slider values, numeric-entry values), or the
  exception that escapes it.
\<close>

definition sync_inputs ::
  "triggered_prop list \<Rightarrow> 'v list \<Rightarrow> 'v list \<Rightarrow> 'v click_data option
     \<Rightarrow> py_error + ('v list \<times> 'v list)" where
  "sync_inputs triggered slider_values input_values click_data =
     (let trigger_id = trigger_id_of triggered in
      case py_in ''spectra-plot.clickData'' trigger_id of
        Inl e \<Rightarrow> Inl e
      | Inr True \<Rightarrow>
          (case clicked_x click_data of
             Inl e \<Rightarrow> Inl e
           | Inr clicked_wavelength \<Rightarrow>
               (let updated_values = replicate (length slider_values) clicked_wavelength
                in Inr (updated_values, updated_values)))
      | Inr False \<Rightarrow>
          (let updated_values =
                 (if str_contains ''cursor-input'' (py_str trigger_id)
                  then input_values else slider_values)
           in Inr (updated_values, updated_values)))"

section \<open>Case registry\<close>

text \<open>
  Strings are byte sequences: the non-ASCII characters of the source are written as
  their UTF-8 bytes (\<open>micro\<close> is U+00B5, \<open>Delta\<close> U+0394, \<open>lambda\<close> U+03BB).
\<close>

definition micro :: string where
  "micro = [CHR 0xC2, CHR 0xB5]"

definition Delta :: string where
  "Delta = [CHR 0xCE, CHR 0x94]"

definition lambda :: string where
  "lambda = [CHR 0xCE, CHR 0xBB]"

record case_info =
  data_file :: string
  color :: string
  description :: string

text \<open>
  The dict literal \<^verbatim>\<open>cases\<close>, in the order it is written; the key \<^verbatim>\<open>'file'\<close> of an
  entry is the field \<open>data_file\<close>.
\<close>

definition cases :: "(string \<times> case_info) list" where
  "cases =
     [(''Blank'',
         \<lparr>data_file = ''data/t-white-blank.txt'', color = ''black'', description = ''Blank''\<rparr>),
      (''Case 1'',
         \<lparr>data_file = ''data/t-1white.txt'', color = ''red'',
          description = ''10'' @ micro @ ''L FITC-BSA with 290'' @ micro @ ''L water''\<rparr>),
      (''Case 2'',
         \<lparr>data_file = ''data/t-2white.txt'', color = ''green'',
          description = ''20'' @ micro @ ''L FITC-BSA with 280'' @ micro @ ''L water''\<rparr>),
      (''Case 3'',
         \<lparr>data_file = ''data/t-3white.txt'', color = ''blue'',
          description = ''30'' @ micro @ ''L FITC-BSA with 270'' @ micro @ ''L water''\<rparr>),
      (''Case 4'',
         \<lparr>data_file = ''data/t-4white.txt'', color = ''orange'',
          description = ''50'' @ micro @ ''L FITC-BSA with 250'' @ micro @ ''L water''\<rparr>)]"

text \<open>\<^verbatim>\<open>cases.get(case_key)\<close>\<close>

definition cases_get :: "string \<Rightarrow> case_info option" where
  "cases_get case_key = map_of cases case_key"

section \<open>Spectrum loader: \<^verbatim>\<open>load_spectra\<close>\<close>

text \<open>
  A data frame with the two columns \<^verbatim>\<open>nm\<close> and \<^verbatim>\<open>percentage\<close> is the list of
  its rows in positional order; every row carries its index label. Floating-point cells
  are idealised as reals; a cell of type \<open>real option\<close> is \<open>None\<close> where pandas
  holds NaN.
\<close>

record 'a row =
  label :: nat
  nm :: 'a
  percentage :: 'a

type_synonym 'a frame = "'a row list"

text \<open>
  What the program takes from its surroundings: \<open>read_csv\<close> is
  \<^verbatim>\<open>pd.read_csv(path, sep=r'\s+', header=None, names=[...], engine='python')\<close> on
  a two-column file, giving the two fields of every row or the exception it raises;
  \<open>to_numeric\<close> is the numeric conversion of one field, \<open>None\<close> where the
  conversion fails and \<^verbatim>\<open>errors='coerce'\<close> puts NaN; \<open>format_2f\<close> is the format
  specification \<^verbatim>\<open>:.2f\<close>.
\<close>

record env =
  read_csv :: "string \<Rightarrow> py_error + (string \<times> string) list"
  to_numeric :: "string \<Rightarrow> real option"
  format_2f :: "real \<Rightarrow> string"

text \<open>With \<^verbatim>\<open>header=None\<close> the frame gets the default index \<open>0, 1, 2, \<dots>\<close>.\<close>

definition range_index :: "('a \<times> 'a) list \<Rightarrow> 'a frame" where
  "range_index raw =
     map (\<lambda>(i, (a, b)). \<lparr>label = i, nm = a, percentage = b\<rparr>) (enumerate 0 raw)"

text \<open>\<^verbatim>\<open>data.apply(pd.to_numeric, errors='coerce')\<close>: every cell of both columns.\<close>

definition apply_to_numeric :: "(string \<Rightarrow> real option) \<Rightarrow> string frame \<Rightarrow> real option frame" where
  "apply_to_numeric conv data =
     map (\<lambda>r. \<lparr>label = label r, nm = conv (nm r), percentage = conv (percentage r)\<rparr>) data"

text \<open>
  \<^verbatim>\<open>dropna()\<close>: a row with NaN in either column is removed; the rows that stay keep
  their index labels.
\<close>

fun dropna :: "real option frame \<Rightarrow> real frame" where
  "dropna [] = []"
| "dropna (r # rs) =
     (case (nm r, percentage r) of
        (Some a, Some b) \<Rightarrow> \<lparr>label = label r, nm = a, percentage = b\<rparr> # dropna rs
      | _ \<Rightarrow> dropna rs)"

text \<open>
  \<^verbatim>\<open>load_spectra\<close>: \<open>None\<close> is the \<^verbatim>\<open>None\<close> of the \<^verbatim>\<open>except\<close> branch, which
  catches every exception of the read (its \<^verbatim>\<open>print\<close> is left out).
\<close>

definition load_spectra :: "env \<Rightarrow> string \<Rightarrow> real frame option" where
  "load_spectra e file_path =
     (case read_csv e file_path of
        Inl err \<Rightarrow> None
      | Inr raw \<Rightarrow> Some (dropna (apply_to_numeric (to_numeric e) (range_index raw))))"

section \<open>Plot composer: \<^verbatim>\<open>update_plot\<close>\<close>

text \<open>The parts of the \<^verbatim>\<open>go.Figure\<close> that the callback writes.\<close>

record trace =
  trace_x :: "real list"
  trace_y :: "real list"
  trace_mode :: string
  trace_line_color :: string
  trace_name :: string

record shape =
  shape_type :: string
  x0 :: real
  x1 :: real
  y0 :: real
  y1 :: real
  shape_line_color :: string
  shape_line_dash :: string

record annotation =
  ann_x :: real
  ann_y :: real
  ann_text :: string
  showarrow :: bool
  yshift :: int
  font_color :: string

record layout =
  title :: string
  xaxis_title :: string
  yaxis_title :: string
  hovermode :: string
  template :: string

record figure =
  traces :: "trace list"
  shapes :: "shape list"
  annotations :: "annotation list"
  fig_layout :: "layout option"

text \<open>\<^verbatim>\<open>go.Figure()\<close>\<close>

definition new_figure :: figure where
  "new_figure = \<lparr>traces = [], shapes = [], annotations = [], fig_layout = None\<rparr>"

definition add_trace :: "trace \<Rightarrow> figure \<Rightarrow> figure" where
  "add_trace t fig = fig\<lparr>traces := traces fig @ [t]\<rparr>"

definition add_shape :: "shape \<Rightarrow> figure \<Rightarrow> figure" where
  "add_shape s fig = fig\<lparr>shapes := shapes fig @ [s]\<rparr>"

definition add_annotation :: "annotation \<Rightarrow> figure \<Rightarrow> figure" where
  "add_annotation a fig = fig\<lparr>annotations := annotations fig @ [a]\<rparr>"

definition update_layout :: "figure \<Rightarrow> figure" where
  "update_layout fig =
     fig\<lparr>fig_layout := Some
       \<lparr>title = ''Fluorescence Spectrum Analysis'',
        xaxis_title = ''Wavelength (nm)'',
        yaxis_title = ''Intensity (%)'',
        hovermode = ''closest'',
        template = ''plotly_white''\<rparr>\<rparr>"

text \<open>
  The first loop of \<^verbatim>\<open>update_plot\<close>, over \<^verbatim>\<open>enumerate(selected_cases)\<close> from
  position \<open>i\<close> on. The inner dict \<^verbatim>\<open>{1: \<dots>, 2: \<dots>}\<close> is the pair of its two values.
\<close>

type_synonym cursor_map = "string \<rightharpoonup> real \<times> real"

fun build_cursor_map ::
  "real list \<Rightarrow> nat \<Rightarrow> string list \<Rightarrow> cursor_map \<Rightarrow> py_error + cursor_map" where
  "build_cursor_map slider_values i [] cursor_map = Inr cursor_map"
| "build_cursor_map slider_values i (case_key # rest) cursor_map =
     (let cursor_start = i * 2 in
      case py_index slider_values cursor_start of
        Inl e \<Rightarrow> Inl e
      | Inr v1 \<Rightarrow>
          (case py_index slider_values (cursor_start + 1) of
             Inl e \<Rightarrow> Inl e
           | Inr v2 \<Rightarrow>
               build_cursor_map slider_values (Suc i) rest (cursor_map(case_key \<mapsto> (v1, v2)))))"

text \<open>
  \<^verbatim>\<open>(data['nm'] - cursor).abs()\<close>: a series that keeps the index labels of
  \<open>data\<close>.
\<close>

definition abs_distance :: "real frame \<Rightarrow> real \<Rightarrow> (nat \<times> real) list" where
  "abs_distance data cursor = map (\<lambda>r. (label r, \<bar>nm r - cursor\<bar>)) data"

text \<open>
  \<^verbatim>\<open>idxmin()\<close>: the index label of the first occurrence of the minimum;
  \<^verbatim>\<open>ValueError\<close> on an empty series.
\<close>

fun first_min :: "nat \<times> real \<Rightarrow> (nat \<times> real) list \<Rightarrow> nat \<times> real" where
  "first_min best [] = best"
| "first_min best (p # ps) = first_min (if snd p < snd best then p else best) ps"

definition idxmin :: "(nat \<times> real) list \<Rightarrow> py_error + nat" where
  "idxmin series =
     (case series of [] \<Rightarrow> Inl ValueError | p # ps \<Rightarrow> Inr (fst (first_min p ps)))"

text \<open>
  \<^verbatim>\<open>data.iloc[idx]['percentage']\<close>: \<^verbatim>\<open>iloc\<close> takes the row at position
  \<open>idx\<close> and raises \<^verbatim>\<open>IndexError\<close> beyond the last row.
\<close>

definition iloc_percentage :: "real frame \<Rightarrow> nat \<Rightarrow> py_error + real" where
  "iloc_percentage data idx =
     (case py_index data idx of Inl e \<Rightarrow> Inl e | Inr r \<Rightarrow> Inr (percentage r))"

text \<open>
  The nearest-sample resolution that \<^verbatim>\<open>update_plot\<close> writes out once per cursor:
  \<^verbatim>\<open>idx = (data['nm'] - cursor).abs().idxmin()\<close>, then
  \<^verbatim>\<open>data.iloc[idx]['percentage']\<close>.
\<close>

definition resolve :: "real frame \<Rightarrow> real \<Rightarrow> py_error + real" where
  "resolve data cursor =
     (case idxmin (abs_distance data cursor) of
        Inl e \<Rightarrow> Inl e
      | Inr idx \<Rightarrow> iloc_percentage data idx)"

text \<open>\<^verbatim>\<open>data['percentage'].max()\<close> of a frame with first row \<open>r\<close> and more rows \<open>rs\<close>.\<close>

definition percentage_max :: "real row \<Rightarrow> real frame \<Rightarrow> real" where
  "percentage_max r rs = fold max (map percentage rs) (percentage r)"

text \<open>The f-string of the delta summary.\<close>

definition diff_output_of :: "env \<Rightarrow> real \<Rightarrow> real \<Rightarrow> real \<Rightarrow> real \<Rightarrow> string" where
  "diff_output_of e cursor1 cursor2 i1 i2 =
     Delta @ lambda @ '' = '' @ format_2f e \<bar>cursor2 - cursor1\<bar> @ '' nm, '' @
     Delta @ ''I = '' @ format_2f e \<bar>i2 - i1\<bar> @ ''%''"

definition cursor_shape :: "case_info \<Rightarrow> real \<Rightarrow> real \<Rightarrow> shape" where
  "cursor_shape c cursor ymax =
     \<lparr>shape_type = ''line'', x0 = cursor, x1 = cursor, y0 = 0, y1 = ymax,
      shape_line_color = color c, shape_line_dash = ''dash''\<rparr>"

definition cursor_annotation :: "env \<Rightarrow> case_info \<Rightarrow> real \<Rightarrow> real \<Rightarrow> annotation" where
  "cursor_annotation e c cursor ymax =
     \<lparr>ann_x = cursor, ann_y = ymax, ann_text = format_2f e cursor @ '' nm'',
      showarrow = False, yshift = 10, font_color = color c\<rparr>"

text \<open>
  One pass of the body of the second loop, on the state \<open>(fig, diff_outputs)\<close>. The
  \<^verbatim>\<open>continue\<close> exits (no such case, no frame, empty frame) return the state as it
  is. The source computes both labels \<^verbatim>\<open>idx1\<close>, \<^verbatim>\<open>idx2\<close> and then reads both
  intensities; \<^verbatim>\<open>idxmin\<close> does not raise on a frame with a row, so resolving the two
  cursors one after the other raises the same exception or gives the same values.
\<close>

definition render_case ::
  "env \<Rightarrow> cursor_map \<Rightarrow> string \<Rightarrow> figure \<times> string list
     \<Rightarrow> py_error + (figure \<times> string list)" where
  "render_case e cursor_map case_key st =
     (case cases_get case_key of
        None \<Rightarrow> Inr st
      | Some c \<Rightarrow>
          (case load_spectra e (data_file c) of
             None \<Rightarrow> Inr st
           | Some [] \<Rightarrow> Inr st
           | Some (r # rs) \<Rightarrow>
               (let data = r # rs;
                    fig1 = add_trace
                      \<lparr>trace_x = map nm data, trace_y = map percentage data,
                       trace_mode = ''lines'', trace_line_color = color c,
                       trace_name = description c\<rparr> (fst st)
                in case py_getitem cursor_map case_key of
                     Inl err \<Rightarrow> Inl err
                   | Inr (cursor1, cursor2) \<Rightarrow>
                       (case resolve data cursor1 of
                          Inl err \<Rightarrow> Inl err
                        | Inr i1 \<Rightarrow>
                            (case resolve data cursor2 of
                               Inl err \<Rightarrow> Inl err
                             | Inr i2 \<Rightarrow>
                                 (let ymax = percentage_max r rs;
                                      fig2 = add_shape (cursor_shape c cursor1 ymax) fig1;
                                      fig3 = add_shape (cursor_shape c cursor2 ymax) fig2;
                                      fig4 = add_annotation
                                               (cursor_annotation e c cursor1 ymax) fig3;
                                      fig5 = add_annotation
                                               (cursor_annotation e c cursor2 ymax) fig4;
                                      diff_output = diff_output_of e cursor1 cursor2 i1 i2
                                  in Inr (fig5, snd st @ [diff_output])))))))"

text \<open>The second loop: \<^verbatim>\<open>for case_key in selected_cases\<close>.\<close>

fun render_cases ::
  "env \<Rightarrow> cursor_map \<Rightarrow> string list \<Rightarrow> figure \<times> string list
     \<Rightarrow> py_error + (figure \<times> string list)" where
  "render_cases e cursor_map [] st = Inr st"
| "render_cases e cursor_map (case_key # rest) st =
     (case render_case e cursor_map case_key st of
        Inl err \<Rightarrow> Inl err
      | Inr st' \<Rightarrow> render_cases e cursor_map rest st')"

text \<open>The callback: the figure and the list \<^verbatim>\<open>diff_outputs\<close>.\<close>

definition update_plot ::
  "env \<Rightarrow> real list \<Rightarrow> string list \<Rightarrow> py_error + (figure \<times> string list)" where
  "update_plot e slider_values selected_cases =
     (case build_cursor_map slider_values 0 selected_cases Map.empty of
        Inl err \<Rightarrow> Inl err
      | Inr cursor_map \<Rightarrow>
          (case render_cases e cursor_map selected_cases (new_figure, []) of
             Inl err \<Rightarrow> Inl err
           | Inr (fig, diff_outputs) \<Rightarrow> Inr (update_layout fig, diff_outputs)))"

section \<open>Floats of decimal literals\<close>

text \<open>
  Cells and cursors are idealised as reals. Where a statement is about the floats that
  the program holds for decimal literals, these are named: a binary64 number in the normal
  range is a significand \<open>m\<close> of 53 bits over a power of two, and it is the float of a
  literal \<open>x\<close> when it lies within half a unit in the last place of \<open>x\<close>.
\<close>

definition binary64 :: "int \<Rightarrow> nat \<Rightarrow> real" where
  "binary64 m k = of_int m / 2 ^ k"

definition nearest_binary64 :: "int \<Rightarrow> nat \<Rightarrow> real \<Rightarrow> bool" where
  "nearest_binary64 m k x =
     (2 ^ 52 \<le> m \<and> m < 2 ^ 53 \<and> \<bar>binary64 m k - x\<bar> < 1 / 2 ^ (k + 1))"

section \<open>Vocabulary of the specification\<close>

text \<open>
  A row of the input "fails numeric conversion" when the conversion of either of its
  two fields fails.
\<close>

definition fails_conversion :: "env \<Rightarrow> string \<times> string \<Rightarrow> bool" where
  "fails_conversion e raw_row =
     (to_numeric e (fst raw_row) = None \<or> to_numeric e (snd raw_row) = None)"

text \<open>
  A selected case of the registry has its spectrum "unavailable" when the loader returns
  \<^verbatim>\<open>None\<close> (the source cannot be read) or a frame without rows (nothing is left after
  the invalid rows are dropped).
\<close>

definition spectrum_unavailable :: "env \<Rightarrow> string \<Rightarrow> bool" where
  "spectrum_unavailable e case_key =
     (case cases_get case_key of
        None \<Rightarrow> False
      | Some c \<Rightarrow>
          (case load_spectra e (data_file c) of None \<Rightarrow> True | Some data \<Rightarrow> data = []))"

text \<open>
  A selected case "produces a curve" when it is a case of the registry whose loaded
  frame has a row: the cases for which \<^verbatim>\<open>fig.add_trace\<close> runs.
\<close>

definition produces_curve :: "env \<Rightarrow> string \<Rightarrow> bool" where
  "produces_curve e case_key =
     (case cases_get case_key of
        None \<Rightarrow> False
      | Some c \<Rightarrow>
          (case load_spectra e (data_file c) of None \<Rightarrow> False | Some data \<Rightarrow> data \<noteq> []))"

section \<open>An example data directory\<close>

text \<open>
  Concrete surroundings for evaluating the callbacks: the file of \<^verbatim>\<open>Case 1\<close> starts
  with a header line, the file of \<^verbatim>\<open>Case 2\<close> holds numeric rows only, the file of
  \<^verbatim>\<open>Case 3\<close> holds a header line and nothing else, and the files of \<^verbatim>\<open>Blank\<close>
  and \<^verbatim>\<open>Case 4\<close> cannot be read. The formatter is a parameter of the example.
\<close>

definition example_files :: "string \<Rightarrow> py_error + (string \<times> string) list" where
  "example_files path =
     (if path = ''data/t-1white.txt''
        then Inr [(''nm'', ''%''), (''500'', ''10''), (''600'', ''20'')]
      else if path = ''data/t-2white.txt''
        then Inr [(''450'', ''5''), (''500'', ''10''), (''560'', ''30''), (''600'', ''20'')]
      else if path = ''data/t-3white.txt''
        then Inr [(''wavelength'', ''intensity'')]
      else Inl OSError)"

definition example_numeric :: "string \<Rightarrow> real option" where
  "example_numeric =
     map_of [(''5'', 5), (''10'', 10), (''20'', 20), (''30'', 30),
             (''450'', 450), (''500'', 500), (''560'', 560), (''600'', 600)]"

text \<open>
  A formatter for \<^verbatim>\<open>:.2f\<close>: the value rounded to the nearest hundredth, ties to the
  even one, written with a sign, the digits of the integer part, a point and two digits.
\<close>

definition digit_char :: "nat \<Rightarrow> char" where
  "digit_char n = ''0123456789'' ! n"

fun digits :: "nat \<Rightarrow> string" where
  "digits n = (if n < 10 then [digit_char n] else digits (n div 10) @ [digit_char (n mod 10)])"

definition round_half_even :: "real \<Rightarrow> int" where
  "round_half_even y =
     (let f = \<lfloor>y\<rfloor>; r = y - of_int f
      in if r < 1 / 2 then f else if 1 / 2 < r then f + 1 else if even f then f else f + 1)"

definition format_2f_round :: "real \<Rightarrow> string" where
  "format_2f_round x =
     (let n = nat (round_half_even (\<bar>x\<bar> * 100))
      in (if x < 0 then ''-'' else []) @ digits (n div 100) @ ''.'' @
         [digit_char (n mod 100 div 10), digit_char (n mod 10)])"

definition example_env :: "(real \<Rightarrow> string) \<Rightarrow> env" where
  "example_env fmt =
     \<lparr>read_csv = example_files, to_numeric = example_numeric, format_2f = fmt\<rparr>"

section \<open>Properties of the cursor reconciliation\<close>

text \<open>
  C9: when the callback runs with no triggering property (\<^verbatim>\<open>ctx.triggered\<close> falsy, so
  \<^verbatim>\<open>trigger_id\<close> is \<^verbatim>\<open>None\<close>), the membership test
  \<^verbatim>\<open>'spectra-plot.clickData' in trigger_id\<close> raises \<^verbatim>\<open>TypeError\<close>; the slider
  fallback branch is not taken, whatever the slider values, the input values and the
  click data are.
\<close>

theorem sync_inputs_no_trigger_raises:
  "sync_inputs [] slider_values input_values click_data = Inl TypeError"
  by (simp add: sync_inputs_def trigger_id_of_def py_in_def)

text \<open>
  C3: when the trigger is the chart click (the identifier of the first triggered
  property contains \<^verbatim>\<open>spectra-plot.clickData\<close>), the click data holds a first point
  with x-coordinate \<open>w\<close>, and there are \<open>k\<close> slider values, both returned sequences
  are \<open>k\<close> copies of \<open>w\<close>, whatever the prior slider values and input values are.
\<close>

theorem sync_inputs_chart_click:
  assumes "triggered = t # others"
      and "str_contains ''spectra-plot.clickData'' (prop_id t)"
      and "click_data = Some d" and "d ''points'' = Some (p # ps)" and "p ''x'' = Some w"
      and "length slider_values = k"
  shows "sync_inputs triggered slider_values input_values click_data
           = Inr (replicate k w, replicate k w)"
  using assms
  by (simp add: sync_inputs_def trigger_id_of_def py_in_def clicked_x_def py_getitem_def
        py_index_def Let_def)

theorem sync_inputs_chart_click_witness:
  "sync_inputs [\<lparr>prop_id = ''spectra-plot.clickData''\<rparr>]
     [462.7, 560, 470, 610 :: real] [462.7, 555, 470, 610]
     (Some [''points'' \<mapsto> [[''x'' \<mapsto> 512.3, ''y'' \<mapsto> 40]]])
   = Inr (replicate 4 512.3, replicate 4 512.3)"
  using sync_inputs_chart_click
    [where triggered = "[\<lparr>prop_id = ''spectra-plot.clickData''\<rparr>]"
       and t = "\<lparr>prop_id = ''spectra-plot.clickData''\<rparr>" and others = "[]"
       and click_data = "Some [''points'' \<mapsto> [[''x'' \<mapsto> 512.3, ''y'' \<mapsto> 40]]]"
       and d = "[''points'' \<mapsto> [[''x'' \<mapsto> 512.3, ''y'' \<mapsto> 40]]]"
       and p = "[''x'' \<mapsto> 512.3, ''y'' \<mapsto> 40]" and ps = "[]" and w = "512.3 :: real"
       and slider_values = "[462.7, 560, 470, 610]" and k = 4
       and input_values = "[462.7, 555, 470, 610]"]
  by simp

text \<open>
  C2: whenever the callback returns, the slider sequence and the numeric-entry sequence
  it returns are equal. It does return, with one sequence for both, for every trigger:
  whenever some property triggered it and, if that trigger is the chart click, the click
  data holds the clicked x-coordinate.
\<close>

theorem sync_inputs_outputs_equal:
  "(sync_inputs triggered slider_values input_values click_data = Inr (s, i) \<longrightarrow> s = i)
   \<and> (triggered \<noteq> [] \<and>
        (str_contains ''spectra-plot.clickData'' (prop_id (hd triggered))
           \<longrightarrow> (\<exists>w. clicked_x click_data = Inr w))
      \<longrightarrow> (\<exists>v. sync_inputs triggered slider_values input_values click_data = Inr (v, v)))"
  by (cases triggered)
     (auto simp add: sync_inputs_def trigger_id_of_def py_in_def Let_def
           split: sum.splits bool.splits)

theorem sync_inputs_outputs_equal_witness:
  \<open>sync_inputs [\<lparr>prop_id = ''{"case":"Blank","cursor":2,"type":"cursor-input"}.value''\<rparr>]
      [462.7, 560 :: real] [462.7, 601.5] None = Inr ([462.7, 601.5], [462.7, 601.5])
   \<and> [\<lparr>prop_id = ''{"case":"Blank","cursor":2,"type":"cursor-input"}.value''\<rparr>] \<noteq> []
   \<and> \<not> str_contains ''spectra-plot.clickData''
         ''{"case":"Blank","cursor":2,"type":"cursor-input"}.value''
   \<and> (\<exists>v. sync_inputs
              [\<lparr>prop_id = ''{"case":"Blank","cursor":2,"type":"cursor-input"}.value''\<rparr>]
              [462.7, 560 :: real] [462.7, 601.5] None = Inr (v, v))\<close>
  using sync_inputs_outputs_equal
    [where triggered =
         \<open>[\<lparr>prop_id = ''{"case":"Blank","cursor":2,"type":"cursor-input"}.value''\<rparr>]\<close>
       and slider_values = "[462.7, 560 :: real]" and input_values = "[462.7, 601.5]"
       and click_data = None and s = "[462.7, 601.5]" and i = "[462.7, 601.5]"]
  by (simp add: sync_inputs_def trigger_id_of_def py_in_def py_str_def Let_def)

text \<open>
  C7, as the code has it: the trigger identifier is that of the first entry of
  \<^verbatim>\<open>ctx.triggered\<close>, whatever other properties fired with it. When it is not the chart
  click, the numeric-entry values are returned for both representations if it contains
  \<^verbatim>\<open>cursor-input\<close>, and the slider values are returned for both otherwise. So the
  slider branch is the fallback for simultaneous triggers only when the first of them is
  not a numeric entry.
\<close>

theorem sync_inputs_non_click:
  assumes "triggered = t # others"
      and "\<not> str_contains ''spectra-plot.clickData'' (prop_id t)"
  shows "sync_inputs triggered slider_values input_values click_data
           = (if str_contains ''cursor-input'' (prop_id t)
              then Inr (input_values, input_values)
              else Inr (slider_values, slider_values))"
  using assms
  by (simp add: sync_inputs_def trigger_id_of_def py_in_def py_str_def)

theorem sync_inputs_non_click_witness:
  \<open>sync_inputs [\<lparr>prop_id = ''{"case":"Blank","cursor":1,"type":"cursor-input"}.value''\<rparr>]
      [462.7, 560 :: real] [480.2, 560] None = Inr ([480.2, 560], [480.2, 560])
   \<and> sync_inputs
       [\<lparr>prop_id = ''{"case":"Blank","cursor":1,"type":"cursor-slider"}.value''\<rparr>,
        \<lparr>prop_id = ''{"case":"Blank","cursor":1,"type":"cursor-input"}.value''\<rparr>]
       [471.9, 560 :: real] [480.2, 560] None = Inr ([471.9, 560], [471.9, 560])
   \<and> sync_inputs
       [\<lparr>prop_id = ''{"case":"Blank","cursor":1,"type":"cursor-input"}.value''\<rparr>,
        \<lparr>prop_id = ''{"case":"Blank","cursor":1,"type":"cursor-slider"}.value''\<rparr>]
       [471.9, 560 :: real] [480.2, 560] None = Inr ([480.2, 560], [480.2, 560])\<close>
  using
    sync_inputs_non_click
      [where triggered =
           \<open>[\<lparr>prop_id = ''{"case":"Blank","cursor":1,"type":"cursor-input"}.value''\<rparr>]\<close>
         and t = \<open>\<lparr>prop_id = ''{"case":"Blank","cursor":1,"type":"cursor-input"}.value''\<rparr>\<close>
         and others = "[]" and slider_values = "[462.7, 560 :: real]"
         and input_values = "[480.2, 560]" and click_data = None]
    sync_inputs_non_click
      [where triggered =
           \<open>[\<lparr>prop_id = ''{"case":"Blank","cursor":1,"type":"cursor-slider"}.value''\<rparr>,
             \<lparr>prop_id = ''{"case":"Blank","cursor":1,"type":"cursor-input"}.value''\<rparr>]\<close>
         and t = \<open>\<lparr>prop_id = ''{"case":"Blank","cursor":1,"type":"cursor-slider"}.value''\<rparr>\<close>
         and others =
           \<open>[\<lparr>prop_id = ''{"case":"Blank","cursor":1,"type":"cursor-input"}.value''\<rparr>]\<close>
         and slider_values = "[471.9, 560 :: real]"
         and input_values = "[480.2, 560]" and click_data = None]
    sync_inputs_non_click
      [where triggered =
           \<open>[\<lparr>prop_id = ''{"case":"Blank","cursor":1,"type":"cursor-input"}.value''\<rparr>,
             \<lparr>prop_id = ''{"case":"Blank","cursor":1,"type":"cursor-slider"}.value''\<rparr>]\<close>
         and t = \<open>\<lparr>prop_id = ''{"case":"Blank","cursor":1,"type":"cursor-input"}.value''\<rparr>\<close>
         and others =
           \<open>[\<lparr>prop_id = ''{"case":"Blank","cursor":1,"type":"cursor-slider"}.value''\<rparr>]\<close>
         and slider_values = "[471.9, 560 :: real]"
         and input_values = "[480.2, 560]" and click_data = None]
  by simp

text \<open>
  C7 as it is written sends every simultaneous trigger to the slider branch. When a
  numeric entry and a slider fire together and the numeric entry comes first, the
  callback returns the numeric-entry values, which differ from the slider values.
\<close>

theorem sync_inputs_simultaneous_counterexample:
  \<open>\<not> str_contains ''spectra-plot.clickData''
        ''{"case":"Blank","cursor":1,"type":"cursor-input"}.value''
   \<and> sync_inputs
       [\<lparr>prop_id = ''{"case":"Blank","cursor":1,"type":"cursor-input"}.value''\<rparr>,
        \<lparr>prop_id = ''{"case":"Blank","cursor":1,"type":"cursor-slider"}.value''\<rparr>]
       [471.9, 560 :: real] [480.2, 560] None = Inr ([480.2, 560], [480.2, 560])
   \<and> [480.2, 560] \<noteq> [471.9, 560 :: real]\<close>
  by (simp add: sync_inputs_def trigger_id_of_def py_in_def py_str_def Let_def)

section \<open>Properties of the spectrum loader\<close>

lemma frame_of_raw:
  "apply_to_numeric conv (range_index raw)
     = map (\<lambda>(i, (a, b)). \<lparr>label = i, nm = conv a, percentage = conv b\<rparr>) (enumerate 0 raw)"
  by (simp add: apply_to_numeric_def range_index_def case_prod_unfold)

lemma length_dropna:
  "length (dropna (map (\<lambda>(i, (a, b)). \<lparr>label = i, nm = conv a, percentage = conv b\<rparr>)
                    (enumerate n raw)))
     = length (filter (\<lambda>(a, b). conv a \<noteq> None \<and> conv b \<noteq> None) raw)"
  by (induction raw arbitrary: n) (auto split: option.splits)

text \<open>A row that survives carries the position of its input row as label, and its
  cells are the conversions of the two fields of that input row.\<close>

lemma dropna_rows:
  "r \<in> set (dropna (map (\<lambda>(i, (a, b)). \<lparr>label = i, nm = conv a, percentage = conv b\<rparr>)
                     (enumerate n raw)))
   \<Longrightarrow> n \<le> label r \<and> label r < n + length raw
       \<and> conv (fst (raw ! (label r - n))) = Some (nm r)
       \<and> conv (snd (raw ! (label r - n))) = Some (percentage r)"
proof (induction raw arbitrary: n)
  case Nil
  then show ?case by simp
next
  case (Cons p raw)
  obtain a b where p: "p = (a, b)" by (cases p)
  show ?case
  proof (cases "r \<in> set (dropna (map (\<lambda>(i, (a, b)). \<lparr>label = i, nm = conv a, percentage = conv b\<rparr>)
                                  (enumerate (Suc n) raw)))")
    case True
    from Cons.IH[OF True] show ?thesis
      by (auto simp: nth_Cons' Suc_diff_le)
  next
    case False
    with Cons.prems p
    have "r = \<lparr>label = n, nm = the (conv a), percentage = the (conv b)\<rparr>
            \<and> conv a \<noteq> None \<and> conv b \<noteq> None"
      by (auto split: option.splits)
    then show ?thesis using p by auto
  qed
qed

lemma dropna_labels_increasing:
  "sorted_wrt (<) (map label (dropna
      (map (\<lambda>(i, (a, b)). \<lparr>label = i, nm = conv a, percentage = conv b\<rparr>) (enumerate n raw))))"
proof (induction raw arbitrary: n)
  case Nil
  then show ?case by simp
next
  case (Cons p raw)
  obtain a b where p: "p = (a, b)" by (cases p)
  have "\<forall>r \<in> set (dropna (map (\<lambda>(i, (a, b)). \<lparr>label = i, nm = conv a, percentage = conv b\<rparr>)
                            (enumerate (Suc n) raw))). n < label r"
    using dropna_rows[where n = "Suc n" and raw = raw and conv = conv] by fastforce
  with Cons.IH[of "Suc n"] p show ?case
    by (auto split: option.splits)
qed

text \<open>
  C4: when the source is read as the list \<open>raw\<close> of two-field rows, the loader returns
  a frame whose row count is the row count of \<open>raw\<close> minus the number of rows in which
  a field fails numeric conversion. The rows that stay are rows of the input, unchanged
  and in their input order: the label of each is the position of an input row, its two
  cells are the conversions of the two fields of that input row (no default is put in),
  and the labels increase strictly along the frame.
\<close>

theorem load_spectra_row_count:
  assumes "read_csv e file_path = Inr raw"
  shows "\<exists>data. load_spectra e file_path = Some data
           \<and> length data = length raw - length (filter (fails_conversion e) raw)
           \<and> sorted_wrt (<) (map label data)
           \<and> (\<forall>r \<in> set data. label r < length raw
                 \<and> to_numeric e (fst (raw ! label r)) = Some (nm r)
                 \<and> to_numeric e (snd (raw ! label r)) = Some (percentage r))"
proof -
  let ?data = "dropna (apply_to_numeric (to_numeric e) (range_index raw))"
  have l: "load_spectra e file_path = Some ?data"
    using assms by (simp add: load_spectra_def)
  have f: "fails_conversion e
             = (\<lambda>p. \<not> (case p of (a, b) \<Rightarrow> to_numeric e a \<noteq> None \<and> to_numeric e b \<noteq> None))"
    by (rule ext) (simp add: fails_conversion_def case_prod_unfold)
  have "length (filter (\<lambda>(a, b). to_numeric e a \<noteq> None \<and> to_numeric e b \<noteq> None) raw)
          + length (filter (fails_conversion e) raw) = length raw"
    unfolding f by (rule sum_length_filter_compl)
  then have n: "length ?data = length raw - length (filter (fails_conversion e) raw)"
    by (simp add: frame_of_raw length_dropna)
  have s: "sorted_wrt (<) (map label ?data)"
    by (simp add: frame_of_raw dropna_labels_increasing)
  have r: "\<forall>r \<in> set ?data. label r < length raw
                 \<and> to_numeric e (fst (raw ! label r)) = Some (nm r)
                 \<and> to_numeric e (snd (raw ! label r)) = Some (percentage r)"
    using dropna_rows[where n = 0 and raw = raw and conv = "to_numeric e"]
    by (auto simp: frame_of_raw)
  from l n s r show ?thesis by blast
qed

theorem load_spectra_row_count_witness:
  "\<forall>fmt. read_csv (example_env fmt) ''data/t-1white.txt''
            = Inr [(''nm'', ''%''), (''500'', ''10''), (''600'', ''20'')]
     \<and> filter (fails_conversion (example_env fmt))
            [(''nm'', ''%''), (''500'', ''10''), (''600'', ''20'')] = [(''nm'', ''%'')]
     \<and> (\<exists>data. load_spectra (example_env fmt) ''data/t-1white.txt'' = Some data
           \<and> length data = 2 \<and> sorted_wrt (<) (map label data))"
proof
  fix fmt
  have r: "read_csv (example_env fmt) ''data/t-1white.txt''
             = Inr [(''nm'', ''%''), (''500'', ''10''), (''600'', ''20'')]"
    by (simp add: example_env_def example_files_def)
  have f: "filter (fails_conversion (example_env fmt))
             [(''nm'', ''%''), (''500'', ''10''), (''600'', ''20'')] = [(''nm'', ''%'')]"
    by (simp add: fails_conversion_def example_env_def example_numeric_def)
  from load_spectra_row_count[OF r] f
  have "\<exists>data. load_spectra (example_env fmt) ''data/t-1white.txt'' = Some data
           \<and> length data = 2 \<and> sorted_wrt (<) (map label data)"
    by auto
  with r f show "read_csv (example_env fmt) ''data/t-1white.txt''
            = Inr [(''nm'', ''%''), (''500'', ''10''), (''600'', ''20'')]
     \<and> filter (fails_conversion (example_env fmt))
            [(''nm'', ''%''), (''500'', ''10''), (''600'', ''20'')] = [(''nm'', ''%'')]
     \<and> (\<exists>data. load_spectra (example_env fmt) ''data/t-1white.txt'' = Some data
           \<and> length data = 2 \<and> sorted_wrt (<) (map label data))"
    by blast
qed

section \<open>Properties of the plot composer\<close>

lemma build_cursor_map_returns:
  "2 * i + 2 * length ks \<le> length sv \<Longrightarrow> \<exists>cm'. build_cursor_map sv i ks cm = Inr cm'"
  by (induction ks arbitrary: i cm) (auto simp: py_index_def Let_def)

lemma build_cursor_map_general:
  assumes "distinct ks" and "2 * i + 2 * length ks \<le> length sv"
  shows "\<exists>cm'. build_cursor_map sv i ks cm = Inr cm'
           \<and> (\<forall>j<length ks. cm' (ks ! j) = Some (sv ! (2 * (i + j)), sv ! (2 * (i + j) + 1)))
           \<and> (\<forall>k. k \<notin> set ks \<longrightarrow> cm' k = cm k)"
  using assms
proof (induction ks arbitrary: i cm)
  case Nil
  then show ?case by simp
next
  case (Cons k ks)
  let ?cm = "cm(k \<mapsto> (sv ! (2 * i), sv ! (2 * i + 1)))"
  from Cons.prems have d: "distinct ks" and k: "k \<notin> set ks"
    and len: "2 * Suc i + 2 * length ks \<le> length sv" by auto
  from Cons.IH[OF d len, of ?cm] obtain cm' where
    b: "build_cursor_map sv (Suc i) ks ?cm = Inr cm'"
    and pos: "\<forall>j<length ks. cm' (ks ! j) = Some (sv ! (2 * (Suc i + j)), sv ! (2 * (Suc i + j) + 1))"
    and keep: "\<forall>k'. k' \<notin> set ks \<longrightarrow> cm' k' = ?cm k'" by blast
  have step: "build_cursor_map sv i (k # ks) cm = Inr cm'"
    using Cons.prems(2) b by (simp add: py_index_def Let_def mult.commute)
  have "cm' ((k # ks) ! j) = Some (sv ! (2 * (i + j)), sv ! (2 * (i + j) + 1))"
    if "j < length (k # ks)" for j
  proof (cases j)
    case 0
    then show ?thesis using keep k by simp
  next
    case (Suc j')
    then show ?thesis using pos that by simp
  qed
  moreover have "\<forall>k'. k' \<notin> set (k # ks) \<longrightarrow> cm' k' = cm k'"
    using keep by auto
  ultimately show ?case using step by blast
qed

lemma render_case_unregistered:
  "cases_get k = None \<Longrightarrow> render_case e cm k st = Inr st"
  by (simp add: render_case_def)

lemma render_case_unavailable:
  "spectrum_unavailable e k \<Longrightarrow> render_case e cm k st = Inr st"
  by (auto simp: render_case_def spectrum_unavailable_def split: option.splits list.splits)

lemma render_cases_filter:
  assumes "\<And>k st. \<not> P k \<Longrightarrow> render_case e cm k st = Inr st"
  shows "render_cases e cm ks st = render_cases e cm (filter P ks) st"
  by (induction ks arbitrary: st) (auto simp: assms split: sum.splits)

lemma render_case_counts:
  assumes "render_case e cm k (fig, d) = Inr (fig', d')"
  shows "length (traces fig') = length (traces fig) + (if produces_curve e k then 1 else 0)
       \<and> length d' = length d + (if produces_curve e k then 1 else 0)"
  using assms
  by (auto simp: render_case_def produces_curve_def Let_def add_trace_def add_shape_def
        add_annotation_def split: option.splits list.splits sum.splits prod.splits)

lemma render_cases_counts:
  assumes "render_cases e cm ks (fig, d) = Inr (fig', d')"
  shows "length (traces fig') = length (traces fig) + length (filter (produces_curve e) ks)
       \<and> length d' = length d + length (filter (produces_curve e) ks)"
  using assms
proof (induction ks arbitrary: fig d)
  case Nil
  then show ?case by simp
next
  case (Cons k ks)
  from Cons.prems obtain fig1 d1 where
    one: "render_case e cm k (fig, d) = Inr (fig1, d1)"
    and more: "render_cases e cm ks (fig1, d1) = Inr (fig', d')"
    by (auto split: sum.splits)
  from render_case_counts[OF one] Cons.IH[OF more] show ?case by auto
qed

lemma render_cases_all_skipped:
  assumes "\<And>k st. k \<in> set ks \<Longrightarrow> render_case e cm k st = Inr st"
  shows "render_cases e cm ks st = Inr st"
  using assms by (induction ks arbitrary: st) auto

text \<open>
  C8: for a selection without repeated identifiers and a flat list of slider values of
  twice its length, the first loop does not raise, and the cursor map it builds gives the
  case at position \<open>i\<close> of the selection the values at flat positions \<open>2 * i\<close> (slot 1)
  and \<open>2 * i + 1\<close> (slot 2); the second loop renders every case with the cursors of that
  map.
\<close>

theorem cursor_map_positions:
  assumes "distinct selected_cases"
      and "length slider_values = 2 * length selected_cases"
  shows "\<exists>cursor_map.
           build_cursor_map slider_values 0 selected_cases Map.empty = Inr cursor_map
         \<and> (\<forall>i<length selected_cases.
               cursor_map (selected_cases ! i)
                 = Some (slider_values ! (2 * i), slider_values ! (2 * i + 1)))
         \<and> update_plot e slider_values selected_cases
             = (case render_cases e cursor_map selected_cases (new_figure, []) of
                  Inl err \<Rightarrow> Inl err
                | Inr (fig, diff_outputs) \<Rightarrow> Inr (update_layout fig, diff_outputs))"
proof -
  from assms have "2 * 0 + 2 * length selected_cases \<le> length slider_values" by simp
  from build_cursor_map_general[OF assms(1) this, of Map.empty]
  obtain cm where b: "build_cursor_map slider_values 0 selected_cases Map.empty = Inr cm"
    and pos: "\<forall>j<length selected_cases.
                cm (selected_cases ! j)
                  = Some (slider_values ! (2 * (0 + j)), slider_values ! (2 * (0 + j) + 1))"
    by blast
  from b have "update_plot e slider_values selected_cases
             = (case render_cases e cm selected_cases (new_figure, []) of
                  Inl err \<Rightarrow> Inl err
                | Inr (fig, diff_outputs) \<Rightarrow> Inr (update_layout fig, diff_outputs))"
    by (simp add: update_plot_def)
  with b pos show ?thesis by auto
qed

theorem cursor_map_positions_witness:
  "distinct [''Blank'', ''Case 2''] \<and> length [462.7, 560, 470, 610 :: real] = 2 * length [''Blank'', ''Case 2'']
   \<and> (\<exists>cursor_map.
         build_cursor_map [462.7, 560, 470, 610] 0 [''Blank'', ''Case 2''] Map.empty = Inr cursor_map
       \<and> cursor_map ''Blank'' = Some (462.7, 560)
       \<and> cursor_map ''Case 2'' = Some (470, 610))"
proof -
  have d: "distinct [''Blank'', ''Case 2'']" by simp
  have l: "length [462.7, 560, 470, 610 :: real] = 2 * length [''Blank'', ''Case 2'']" by simp
  from cursor_map_positions[OF d l] obtain cm where
    b: "build_cursor_map [462.7, 560, 470, 610] 0 [''Blank'', ''Case 2''] Map.empty = Inr cm"
    and p: "\<forall>i<length [''Blank'', ''Case 2''].
               cm ([''Blank'', ''Case 2''] ! i)
                 = Some ([462.7, 560, 470, 610] ! (2 * i), [462.7, 560, 470, 610] ! (2 * i + 1))"
    by blast
  from p[rule_format, of 0] p[rule_format, of 1] have "cm ''Blank'' = Some (462.7, 560)" "cm ''Case 2'' = Some (470, 610)"
    by simp_all
  with b d l show ?thesis by blast
qed

text \<open>
  C5: when the flat list holds two slider values for every selected identifier, the
  first loop does not raise; one pass of the second loop over a case whose spectrum is
  unavailable returns the figure and the delta summaries as they were, without an
  exception; the callback computes what it computes on the selection with those cases
  left out; whenever it returns, the figure holds one curve, and the delta-summary list
  one entry, for every selected case that produces a curve; and when the spectrum of
  every selected case is unavailable, as with the selection \<^verbatim>\<open>["Blank"]\<close> and an
  unreadable source, it returns the figure without curves and the empty list.
\<close>

theorem unavailable_spectrum_skipped:
  assumes "2 * length selected_cases \<le> length slider_values"
  shows "\<exists>cursor_map.
           build_cursor_map slider_values 0 selected_cases Map.empty = Inr cursor_map
         \<and> (\<forall>k st. spectrum_unavailable e k \<longrightarrow> render_case e cursor_map k st = Inr st)
         \<and> update_plot e slider_values selected_cases
             = (case render_cases e cursor_map
                       (filter (\<lambda>k. \<not> spectrum_unavailable e k) selected_cases) (new_figure, []) of
                  Inl err \<Rightarrow> Inl err
                | Inr (fig, diff_outputs) \<Rightarrow> Inr (update_layout fig, diff_outputs))
         \<and> (\<forall>fig diff_outputs.
               update_plot e slider_values selected_cases = Inr (fig, diff_outputs)
               \<longrightarrow> length (traces fig) = length (filter (produces_curve e) selected_cases)
                 \<and> length diff_outputs = length (filter (produces_curve e) selected_cases))
         \<and> ((\<forall>k \<in> set selected_cases. spectrum_unavailable e k)
               \<longrightarrow> update_plot e slider_values selected_cases = Inr (update_layout new_figure, []))"
proof -
  from assms have "2 * 0 + 2 * length selected_cases \<le> length slider_values" by simp
  from build_cursor_map_returns[OF this, of Map.empty]
  obtain cm where b: "build_cursor_map slider_values 0 selected_cases Map.empty = Inr cm"
    by blast
  have skip: "\<forall>k st. spectrum_unavailable e k \<longrightarrow> render_case e cm k st = Inr st"
    by (simp add: render_case_unavailable)
  have "render_cases e cm selected_cases (new_figure, [])
          = render_cases e cm (filter (\<lambda>k. \<not> spectrum_unavailable e k) selected_cases) (new_figure, [])"
    by (rule render_cases_filter) (simp add: render_case_unavailable)
  with b have eq: "update_plot e slider_values selected_cases
             = (case render_cases e cm
                       (filter (\<lambda>k. \<not> spectrum_unavailable e k) selected_cases) (new_figure, []) of
                  Inl err \<Rightarrow> Inl err
                | Inr (fig, diff_outputs) \<Rightarrow> Inr (update_layout fig, diff_outputs))"
    by (simp add: update_plot_def)
  have cnt: "length (traces fig) = length (filter (produces_curve e) selected_cases)
           \<and> length diff_outputs = length (filter (produces_curve e) selected_cases)"
    if "update_plot e slider_values selected_cases = Inr (fig, diff_outputs)" for fig diff_outputs
  proof -
    from that b obtain fig0 where
      r: "render_cases e cm selected_cases (new_figure, []) = Inr (fig0, diff_outputs)"
      and f: "fig = update_layout fig0"
      by (auto simp: update_plot_def split: sum.splits)
    from render_cases_counts[OF r] f show ?thesis
      by (simp add: new_figure_def update_layout_def)
  qed
  have none: "update_plot e slider_values selected_cases = Inr (update_layout new_figure, [])"
    if "\<forall>k \<in> set selected_cases. spectrum_unavailable e k"
  proof -
    have "render_cases e cm selected_cases (new_figure, []) = Inr (new_figure, [])"
      by (rule render_cases_all_skipped) (simp add: that render_case_unavailable)
    with b show ?thesis by (simp add: update_plot_def)
  qed
  from b skip eq cnt none show ?thesis by blast
qed

theorem unavailable_spectrum_skipped_witness:
  "\<forall>fmt. 2 * length [''Blank''] \<le> length [462.7, 560 :: real]
     \<and> cases_get ''Blank'' \<noteq> None
     \<and> load_spectra (example_env fmt) ''data/t-white-blank.txt'' = None
     \<and> update_plot (example_env fmt) [462.7, 560] [''Blank''] = Inr (update_layout new_figure, [])
     \<and> traces (update_layout new_figure) = []
     \<and> load_spectra (example_env fmt) ''data/t-3white.txt'' = Some []
     \<and> update_plot (example_env fmt) [462.7, 560, 470, 610] [''Blank'', ''Case 3'']
           = Inr (update_layout new_figure, [])"
proof
  fix fmt
  have l: "2 * length [''Blank''] \<le> length [462.7, 560 :: real]" by simp
  have c: "cases_get ''Blank'' \<noteq> None" by (simp add: cases_get_def cases_def)
  have n: "load_spectra (example_env fmt) ''data/t-white-blank.txt'' = None"
    by (simp add: load_spectra_def example_env_def example_files_def)
  have u: "\<forall>k \<in> set [''Blank'']. spectrum_unavailable (example_env fmt) k"
    using n by (simp add: spectrum_unavailable_def cases_get_def cases_def)
  from unavailable_spectrum_skipped[OF l, of "example_env fmt"] u
  have p: "update_plot (example_env fmt) [462.7, 560] [''Blank'']
             = Inr (update_layout new_figure, [])"
    by blast
  have l2: "2 * length [''Blank'', ''Case 3''] \<le> length [462.7, 560, 470, 610 :: real]"
    by simp
  have n2: "load_spectra (example_env fmt) ''data/t-3white.txt'' = Some []"
    by (simp add: load_spectra_def example_env_def example_files_def example_numeric_def
          apply_to_numeric_def range_index_def)
  have u2: "\<forall>k \<in> set [''Blank'', ''Case 3'']. spectrum_unavailable (example_env fmt) k"
    using n n2 by (simp add: spectrum_unavailable_def cases_get_def cases_def)
  from unavailable_spectrum_skipped[OF l2, of "example_env fmt"] u2
  have p2: "update_plot (example_env fmt) [462.7, 560, 470, 610] [''Blank'', ''Case 3'']
              = Inr (update_layout new_figure, [])"
    by blast
  have t: "traces (update_layout new_figure) = []"
    by (simp add: update_layout_def new_figure_def)
  from l c n p t n2 p2 show "2 * length [''Blank''] \<le> length [462.7, 560 :: real]
     \<and> cases_get ''Blank'' \<noteq> None
     \<and> load_spectra (example_env fmt) ''data/t-white-blank.txt'' = None
     \<and> update_plot (example_env fmt) [462.7, 560] [''Blank''] = Inr (update_layout new_figure, [])
     \<and> traces (update_layout new_figure) = []
     \<and> load_spectra (example_env fmt) ''data/t-3white.txt'' = Some []
     \<and> update_plot (example_env fmt) [462.7, 560, 470, 610] [''Blank'', ''Case 3'']
           = Inr (update_layout new_figure, [])"
    by blast
qed

text \<open>
  C10, as the code has it: the first loop reads two slider values for every selected
  identifier, registered or not, before the registry is looked at. When the flat list
  holds two slider values for every selected identifier, the
  first loop does not raise; one pass of the second loop over an identifier that is not
  a key of the registry returns the figure and the delta summaries as they were, without
  an exception; and the callback computes what it computes on the registered identifiers
  of the selection, taken in their order, with the cursor map of the whole selection.
\<close>

theorem unregistered_case_skipped:
  assumes "2 * length selected_cases \<le> length slider_values"
  shows "\<exists>cursor_map.
           build_cursor_map slider_values 0 selected_cases Map.empty = Inr cursor_map
         \<and> (\<forall>k st. cases_get k = None \<longrightarrow> render_case e cursor_map k st = Inr st)
         \<and> update_plot e slider_values selected_cases
             = (case render_cases e cursor_map
                       (filter (\<lambda>k. cases_get k \<noteq> None) selected_cases) (new_figure, []) of
                  Inl err \<Rightarrow> Inl err
                | Inr (fig, diff_outputs) \<Rightarrow> Inr (update_layout fig, diff_outputs))"
proof -
  from assms have "2 * 0 + 2 * length selected_cases \<le> length slider_values" by simp
  from build_cursor_map_returns[OF this, of Map.empty]
  obtain cm where b: "build_cursor_map slider_values 0 selected_cases Map.empty = Inr cm"
    by blast
  have "render_cases e cm selected_cases (new_figure, [])
          = render_cases e cm (filter (\<lambda>k. cases_get k \<noteq> None) selected_cases) (new_figure, [])"
    by (rule render_cases_filter) (simp add: render_case_unregistered)
  with b have "update_plot e slider_values selected_cases
             = (case render_cases e cm
                       (filter (\<lambda>k. cases_get k \<noteq> None) selected_cases) (new_figure, []) of
                  Inl err \<Rightarrow> Inl err
                | Inr (fig, diff_outputs) \<Rightarrow> Inr (update_layout fig, diff_outputs))"
    by (simp add: update_plot_def)
  with b show ?thesis by (auto simp: render_case_unregistered)
qed

theorem unregistered_case_skipped_witness:
  "\<forall>fmt. 2 * length [''Ghost'', ''Case 2''] \<le> length [470, 480, 462.7, 560 :: real]
     \<and> cases_get ''Ghost'' = None
     \<and> filter (\<lambda>k. cases_get k \<noteq> None) [''Ghost'', ''Case 2''] = [''Case 2'']
     \<and> map_sum id (\<lambda>(fig, d). (map trace_x (traces fig), d))
          (update_plot (example_env fmt) [470, 480, 462.7, 560] [''Ghost'', ''Case 2''])
         = Inr ([[450, 500, 560, 600]], [diff_output_of (example_env fmt) 462.7 560 5 30])
     \<and> (\<exists>cursor_map.
           build_cursor_map [470, 480, 462.7, 560] 0 [''Ghost'', ''Case 2''] Map.empty
             = Inr cursor_map
         \<and> update_plot (example_env fmt) [470, 480, 462.7, 560] [''Ghost'', ''Case 2'']
             = (case render_cases (example_env fmt) cursor_map [''Case 2''] (new_figure, []) of
                  Inl err \<Rightarrow> Inl err
                | Inr (fig, diff_outputs) \<Rightarrow> Inr (update_layout fig, diff_outputs)))"
proof
  fix fmt
  have l: "2 * length [''Ghost'', ''Case 2''] \<le> length [470, 480, 462.7, 560 :: real]"
    by simp
  have g: "cases_get ''Ghost'' = None" by (simp add: cases_get_def cases_def)
  have f: "filter (\<lambda>k. cases_get k \<noteq> None) [''Ghost'', ''Case 2''] = [''Case 2'']"
    by (simp add: cases_get_def cases_def)
  have u: "map_sum id (\<lambda>(fig, d). (map trace_x (traces fig), d))
          (update_plot (example_env fmt) [470, 480, 462.7, 560] [''Ghost'', ''Case 2''])
         = Inr ([[450, 500, 560, 600]], [diff_output_of (example_env fmt) 462.7 560 5 30])"
    by (simp add: update_plot_def render_case_def cases_get_def cases_def load_spectra_def
          example_env_def example_files_def example_numeric_def apply_to_numeric_def
          range_index_def resolve_def idxmin_def abs_distance_def iloc_percentage_def
          py_index_def py_getitem_def Let_def add_trace_def add_shape_def add_annotation_def
          new_figure_def update_layout_def diff_output_of_def)
  from unregistered_case_skipped[OF l, of "example_env fmt"] f
  have "\<exists>cursor_map.
           build_cursor_map [470, 480, 462.7, 560] 0 [''Ghost'', ''Case 2''] Map.empty
             = Inr cursor_map
         \<and> update_plot (example_env fmt) [470, 480, 462.7, 560] [''Ghost'', ''Case 2'']
             = (case render_cases (example_env fmt) cursor_map [''Case 2''] (new_figure, []) of
                  Inl err \<Rightarrow> Inl err
                | Inr (fig, diff_outputs) \<Rightarrow> Inr (update_layout fig, diff_outputs))"
    by auto
  with l g f u show "2 * length [''Ghost'', ''Case 2''] \<le> length [470, 480, 462.7, 560 :: real]
     \<and> cases_get ''Ghost'' = None
     \<and> filter (\<lambda>k. cases_get k \<noteq> None) [''Ghost'', ''Case 2''] = [''Case 2'']
     \<and> map_sum id (\<lambda>(fig, d). (map trace_x (traces fig), d))
          (update_plot (example_env fmt) [470, 480, 462.7, 560] [''Ghost'', ''Case 2''])
         = Inr ([[450, 500, 560, 600]], [diff_output_of (example_env fmt) 462.7 560 5 30])
     \<and> (\<exists>cursor_map.
           build_cursor_map [470, 480, 462.7, 560] 0 [''Ghost'', ''Case 2''] Map.empty
             = Inr cursor_map
         \<and> update_plot (example_env fmt) [470, 480, 462.7, 560] [''Ghost'', ''Case 2'']
             = (case render_cases (example_env fmt) cursor_map [''Case 2''] (new_figure, []) of
                  Inl err \<Rightarrow> Inl err
                | Inr (fig, diff_outputs) \<Rightarrow> Inr (update_layout fig, diff_outputs)))"
    by blast
qed

text \<open>
  C10 as it is written lets no selected identifier outside the registry raise an error.
  With the slider values of one case only and the selection \<^verbatim>\<open>["Case 2", "Ghost"]\<close>
  the first loop reads \<^verbatim>\<open>slider_values[2]\<close> for \<^verbatim>\<open>Ghost\<close> and the callback raises
  \<^verbatim>\<open>IndexError\<close>.
\<close>

theorem unregistered_case_short_list_counterexample:
  "cases_get ''Ghost'' = None
   \<and> update_plot (example_env format_2f_round) [470, 480] [''Case 2'', ''Ghost'']
       = Inl IndexError"
  by (simp add: cases_get_def cases_def update_plot_def py_index_def Let_def)

section \<open>Properties of the delta summary\<close>

text \<open>A value within half a unit of an integer is rounded to that integer.\<close>

lemma round_half_even_near:
  assumes "of_int k - 1 / 2 < y" and "y < of_int k + 1 / 2"
  shows "round_half_even y = k"
proof -
  have lo: "of_int \<lfloor>y\<rfloor> \<le> y" and hi: "y < of_int \<lfloor>y\<rfloor> + 1" by linarith+
  from assms lo hi have "of_int k - 1 < (of_int \<lfloor>y\<rfloor> + 1 :: real)" "(of_int \<lfloor>y\<rfloor> :: real) < of_int k + 1"
    by linarith+
  then have "k - 2 < \<lfloor>y\<rfloor>" "\<lfloor>y\<rfloor> < k + 1"
    by linarith+
  then consider "\<lfloor>y\<rfloor> = k" | "\<lfloor>y\<rfloor> = k - 1" by linarith
  then show ?thesis
  proof cases
    case 1
    with assms show ?thesis by (simp add: round_half_even_def Let_def)
  next
    case 2
    with assms show ?thesis by (simp add: round_half_even_def Let_def)
  qed
qed

text \<open>What the formatter writes for the values around 97.30 and around 4.35.\<close>

lemma format_97_30:
  assumes "97.295 < x" and "x < 97.305"
  shows "format_2f_round x = ''97.30''"
proof -
  from assms have "of_int 9730 - 1 / 2 < \<bar>x\<bar> * 100" "\<bar>x\<bar> * 100 < of_int 9730 + 1 / 2"
    by simp_all
  then have "round_half_even (\<bar>x\<bar> * 100) = 9730" by (rule round_half_even_near)
  with assms show ?thesis
    by (simp add: format_2f_round_def digit_char_def)
qed

lemma format_4_35:
  assumes "4.345 < x" and "x < 4.355"
  shows "format_2f_round x = ''4.35''"
proof -
  from assms have "of_int 435 - 1 / 2 < \<bar>x\<bar> * 100" "\<bar>x\<bar> * 100 < of_int 435 + 1 / 2"
    by simp_all
  then have "round_half_even (\<bar>x\<bar> * 100) = 435" by (rule round_half_even_near)
  with assms show ?thesis
    by (simp add: format_2f_round_def digit_char_def)
qed

text \<open>
  The literals 560.00 and 8.0 are binary64 numbers; 462.70 and 12.345 are not, and the
  floats the program holds for them are \<open>8139904482751283 / 2 ^ 44\<close> and
  \<open>6949617174986097 / 2 ^ 49\<close>. The two differences of the delta summary are binary64
  numbers again, so the floating-point subtractions return them unrounded and the
  idealisation by reals is exact here.
\<close>

lemma literal_462_70: "nearest_binary64 8139904482751283 44 462.70"
  by (simp add: nearest_binary64_def binary64_def)

lemma literal_12_345: "nearest_binary64 6949617174986097 49 12.345"
  by (simp add: nearest_binary64_def binary64_def)

lemma differences_exact:
  "\<bar>560 - binary64 8139904482751283 44\<bar> = binary64 6846878808486708 46"
  "\<bar>8 - binary64 6949617174986097 49\<bar> = binary64 4892035095231202 50"
  by (simp_all add: binary64_def)

text \<open>
  C6: for the cursors 462.70 and 560.00 and the intensities 12.345 and 8.0, as the floats
  of these literals, the delta summary is the string
  \<^verbatim>\<open>Delta lambda = 97.30 nm, Delta I = 4.35%\<close> (with the two Greek letters), for every
  formatter that writes \<^verbatim>\<open>97.30\<close> for the values strictly between 97.295 and 97.305
  and \<^verbatim>\<open>4.35\<close> for the values strictly between 4.345 and 4.355, as rounding to two
  decimals does.
\<close>

theorem delta_summary_example:
  assumes "\<And>x. 97.295 < x \<Longrightarrow> x < 97.305 \<Longrightarrow> format_2f e x = ''97.30''"
      and "\<And>x. 4.345 < x \<Longrightarrow> x < 4.355 \<Longrightarrow> format_2f e x = ''4.35''"
  shows "diff_output_of e (binary64 8139904482751283 44) 560 (binary64 6949617174986097 49) 8
           = Delta @ lambda @ '' = 97.30 nm, '' @ Delta @ ''I = 4.35%''"
proof -
  have a: "format_2f e \<bar>560 - binary64 8139904482751283 44\<bar> = ''97.30''"
    by (rule assms(1)) (simp_all add: binary64_def)
  have b: "format_2f e \<bar>8 - binary64 6949617174986097 49\<bar> = ''4.35''"
    by (rule assms(2)) (simp_all add: binary64_def)
  show ?thesis unfolding diff_output_of_def a b by simp
qed

theorem delta_summary_example_witness:
  "diff_output_of (example_env format_2f_round)
     (binary64 8139904482751283 44) 560 (binary64 6949617174986097 49) 8
   = Delta @ lambda @ '' = 97.30 nm, '' @ Delta @ ''I = 4.35%''"
proof (rule delta_summary_example)
  fix x :: real
  assume "97.295 < x" and "x < 97.305"
  then show "format_2f (example_env format_2f_round) x = ''97.30''"
    by (simp add: example_env_def format_97_30)
next
  fix x :: real
  assume "4.345 < x" and "x < 4.355"
  then show "format_2f (example_env format_2f_round) x = ''4.35''"
    by (simp add: example_env_def format_4_35)
qed

section \<open>Properties of the nearest-sample resolution\<close>

text \<open>
  \<open>first_min\<close> returns the first entry of the series that carries the least value:
  every entry before it is strictly larger, no entry after it is smaller.
\<close>

lemma first_min_split:
  "\<exists>pre post. b # ps = pre @ first_min b ps # post
      \<and> (\<forall>q \<in> set pre. snd (first_min b ps) < snd q)
      \<and> (\<forall>q \<in> set post. snd (first_min b ps) \<le> snd q)"
proof (induction ps arbitrary: b)
  case Nil
  have "[b] = [] @ first_min b [] # []
      \<and> (\<forall>q \<in> set []. snd (first_min b []) < snd q)
      \<and> (\<forall>q \<in> set []. snd (first_min b []) \<le> snd q)" by simp
  then show ?case by blast
next
  case (Cons p ps)
  show ?case
  proof (cases "snd p < snd b")
    case True
    from Cons.IH[of p] obtain pre post where
      s: "p # ps = pre @ first_min p ps # post"
      and l: "\<forall>q \<in> set pre. snd (first_min p ps) < snd q"
      and r: "\<forall>q \<in> set post. snd (first_min p ps) \<le> snd q" by blast
    have "snd (first_min p ps) \<le> snd p"
    proof (cases pre)
      case Nil
      with s have "p # ps = first_min p ps # post" by (simp only: append_Nil)
      then have "p = first_min p ps" by (rule list.inject[THEN iffD1, THEN conjunct1])
      then have "snd p = snd (first_min p ps)" by (rule arg_cong)
      then show ?thesis by simp
    next
      case (Cons a pre')
      with s have "p # ps = a # (pre' @ first_min p ps # post)" by (simp only: append_Cons)
      then have "p = a" by (rule list.inject[THEN iffD1, THEN conjunct1])
      with Cons have "p \<in> set pre" by simp
      with l show ?thesis by auto
    qed
    with True have lt: "snd (first_min p ps) < snd b" by simp
    have fm: "first_min b (p # ps) = first_min p ps" using True by simp
    have "b # p # ps = (b # pre) @ first_min b (p # ps) # post"
      unfolding fm using s by (simp only: append_Cons)
    moreover have "\<forall>q \<in> set (b # pre). snd (first_min b (p # ps)) < snd q"
      unfolding fm using l lt by simp
    moreover have "\<forall>q \<in> set post. snd (first_min b (p # ps)) \<le> snd q"
      unfolding fm using r by simp
    ultimately show ?thesis by blast
  next
    case False
    from Cons.IH[of b] obtain pre post where
      s: "b # ps = pre @ first_min b ps # post"
      and l: "\<forall>q \<in> set pre. snd (first_min b ps) < snd q"
      and r: "\<forall>q \<in> set post. snd (first_min b ps) \<le> snd q" by blast
    have fm: "first_min b (p # ps) = first_min b ps" using False by simp
    show ?thesis
    proof (cases pre)
      case Nil
      with s have c: "b # ps = first_min b ps # post" by (simp only: append_Nil)
      then have "b = first_min b ps" by (rule list.inject[THEN iffD1, THEN conjunct1])
      then have sb: "snd b = snd (first_min b ps)" by (rule arg_cong)
      from c have pp: "ps = post" by (rule list.inject[THEN iffD1, THEN conjunct2])
      have "b # p # ps = [] @ first_min b (p # ps) # (p # post)"
        unfolding fm using c pp by simp
      moreover have "\<forall>q \<in> set []. snd (first_min b (p # ps)) < snd q" by simp
      moreover have "\<forall>q \<in> set (p # post). snd (first_min b (p # ps)) \<le> snd q"
        unfolding fm using r False sb by simp
      ultimately show ?thesis by blast
    next
      case (Cons a pre')
      with s have c: "b # ps = a # (pre' @ first_min b ps # post)" by (simp only: append_Cons)
      then have a: "b = a" by (rule list.inject[THEN iffD1, THEN conjunct1])
      from c have ps: "ps = pre' @ first_min b ps # post"
        by (rule list.inject[THEN iffD1, THEN conjunct2])
      from l Cons a have "snd (first_min b ps) < snd b" by simp
      with False have lp: "snd (first_min b ps) < snd p" by simp
      have "b # p # ps = (b # p # pre') @ first_min b (p # ps) # post"
        unfolding fm using ps by (simp only: append_Cons)
      moreover have "\<forall>q \<in> set (b # p # pre'). snd (first_min b (p # ps)) < snd q"
        unfolding fm using l lp Cons a by simp
      moreover have "\<forall>q \<in> set post. snd (first_min b (p # ps)) \<le> snd q"
        unfolding fm using r by simp
      ultimately show ?thesis by blast
    qed
  qed
qed

text \<open>
  On a frame whose index labels are the positions of its rows, the resolution returns the
  intensity of the first row whose wavelength is nearest to the cursor.
\<close>

lemma resolve_nearest_when_labels_are_positions:
  assumes "data \<noteq> []" and "map label data = [0..<length data]"
  shows "\<exists>j<length data. resolve data w = Inr (percentage (data ! j))
           \<and> (\<forall>i<length data. \<bar>nm (data ! j) - w\<bar> \<le> \<bar>nm (data ! i) - w\<bar>)
           \<and> (\<forall>i<j. \<bar>nm (data ! j) - w\<bar> < \<bar>nm (data ! i) - w\<bar>)"
proof -
  define S where "S = abs_distance data w"
  from assms(1) obtain b ps where bp: "S = b # ps"
    by (cases data) (auto simp: abs_distance_def S_def)
  from first_min_split[of b ps] obtain pre post where
    s: "S = pre @ first_min b ps # post"
    and l: "\<forall>q \<in> set pre. snd (first_min b ps) < snd q"
    and r: "\<forall>q \<in> set post. snd (first_min b ps) \<le> snd q"
    unfolding bp by blast
  let ?j = "length pre"
  have len: "length S = length data" by (simp add: abs_distance_def S_def)
  from s have "length S = length (pre @ first_min b ps # post)" by (rule arg_cong)
  with len have j: "?j < length data" by simp
  have nth: "S ! i = (label (data ! i), \<bar>nm (data ! i) - w\<bar>)" if "i < length data" for i
    using that by (simp add: abs_distance_def S_def)
  have lab: "label (data ! i) = i" if "i < length data" for i
  proof -
    have "map label data ! i = [0..<length data] ! i" using assms(2) by simp
    with that show ?thesis by simp
  qed
  from s have "S ! ?j = (pre @ first_min b ps # post) ! ?j" by (rule arg_cong)
  then have m: "first_min b ps = S ! ?j" by simp
  have m': "first_min b ps = (?j, \<bar>nm (data ! ?j) - w\<bar>)"
    unfolding m using nth[OF j] lab[OF j] by simp
  have "idxmin S = Inr ?j" unfolding bp using m' by (simp add: idxmin_def)
  then have res: "resolve data w = Inr (percentage (data ! ?j))"
    using j by (simp add: resolve_def iloc_percentage_def py_index_def S_def)
  have before: "\<bar>nm (data ! ?j) - w\<bar> < \<bar>nm (data ! i) - w\<bar>" if "i < ?j" for i
  proof -
    from s have "S ! i = (pre @ first_min b ps # post) ! i" by (rule arg_cong)
    with that have "S ! i = pre ! i" by (simp add: nth_append)
    with that have "S ! i \<in> set pre" by simp
    with l have "snd (first_min b ps) < snd (S ! i)" by blast
    with m' nth[of i] that j show ?thesis by simp
  qed
  have all: "\<bar>nm (data ! ?j) - w\<bar> \<le> \<bar>nm (data ! i) - w\<bar>" if "i < length data" for i
  proof -
    from that len have "S ! i \<in> set S" by simp
    moreover from s have "set S = set (pre @ first_min b ps # post)" by (rule arg_cong)
    ultimately have "S ! i \<in> set pre \<or> S ! i = first_min b ps \<or> S ! i \<in> set post"
      by auto
    with l r have "snd (first_min b ps) \<le> snd (S ! i)" by fastforce
    with m' nth[OF that] show ?thesis by simp
  qed
  from j res all before show ?thesis by blast
qed

text \<open>When no row fails conversion, the labels of the loaded frame are the positions.\<close>

lemma dropna_labels_clean:
  assumes "\<forall>p \<in> set raw. conv (fst p) \<noteq> None \<and> conv (snd p) \<noteq> None"
  shows "map label (dropna (map (\<lambda>(i, (a, b)). \<lparr>label = i, nm = conv a, percentage = conv b\<rparr>)
                              (enumerate n raw)))
           = [n..<n + length raw]"
  using assms
proof (induction raw arbitrary: n)
  case Nil
  then show ?case by simp
next
  case (Cons p raw)
  obtain a b where p: "p = (a, b)" by (cases p)
  from Cons.prems p obtain x y where xy: "conv a = Some x" "conv b = Some y" by auto
  from Cons.prems have "\<forall>p \<in> set raw. conv (fst p) \<noteq> None \<and> conv (snd p) \<noteq> None" by simp
  from Cons.IH[OF this, of "Suc n"]
  have ih: "map label (dropna (map (\<lambda>(i, (a, b)). \<lparr>label = i, nm = conv a, percentage = conv b\<rparr>)
                                 (enumerate (Suc n) raw)))
              = [Suc n..<Suc n + length raw]" .
  have u: "[n..<n + length (p # raw)] = n # [Suc n..<Suc n + length raw]"
    by (subst upt_rec) simp
  have "map label (dropna (map (\<lambda>(i, (a, b)). \<lparr>label = i, nm = conv a, percentage = conv b\<rparr>)
                             (enumerate n (p # raw))))
          = n # map label (dropna (map (\<lambda>(i, (a, b)). \<lparr>label = i, nm = conv a, percentage = conv b\<rparr>)
                                     (enumerate (Suc n) raw)))"
    using p xy by simp
  with ih u show ?case by (simp only:)
qed

text \<open>
  So for a source in which every row converts, the resolution returns the intensity of the
  first nearest sample of the loaded spectrum.
\<close>

lemma resolve_nearest_of_clean_file:
  assumes "read_csv e file_path = Inr raw" and "raw \<noteq> []"
      and "filter (fails_conversion e) raw = []"
  shows "\<exists>data. load_spectra e file_path = Some data \<and> length data = length raw
           \<and> (\<exists>j<length data. resolve data w = Inr (percentage (data ! j))
                 \<and> (\<forall>i<length data. \<bar>nm (data ! j) - w\<bar> \<le> \<bar>nm (data ! i) - w\<bar>)
                 \<and> (\<forall>i<j. \<bar>nm (data ! j) - w\<bar> < \<bar>nm (data ! i) - w\<bar>))"
proof -
  let ?data = "dropna (apply_to_numeric (to_numeric e) (range_index raw))"
  have l: "load_spectra e file_path = Some ?data"
    using assms(1) by (simp add: load_spectra_def)
  from assms(3) have ok: "\<forall>p \<in> set raw. to_numeric e (fst p) \<noteq> None \<and> to_numeric e (snd p) \<noteq> None"
    by (simp add: filter_empty_conv fails_conversion_def)
  from dropna_labels_clean[OF ok, of 0] have lab: "map label ?data = [0..<length raw]"
    by (simp add: frame_of_raw)
  then have "length (map label ?data) = length [0..<length raw]" by (rule arg_cong)
  then have len: "length ?data = length raw" by simp
  with assms(2) have ne: "?data \<noteq> []" by auto
  from lab len have lab': "map label ?data = [0..<length ?data]" by simp
  from resolve_nearest_when_labels_are_positions[OF ne lab', of w] l len
  show ?thesis by blast
qed

text \<open>
  C1: the nearest-sample resolution is to return the intensity of the first sample whose
  wavelength is nearest to the cursor, for every non-empty spectrum. \<^verbatim>\<open>idxmin()\<close>
  gives the index label of that sample, and \<^verbatim>\<open>iloc\<close> reads the label as a position.
  After the loader has dropped a row the two differ. In the example directory the file of
  \<^verbatim>\<open>Case 1\<close> is a header line followed by the samples (500, 10) and (600, 20), which
  the loader keeps under the labels 1 and 2. At the cursor 500 the nearest sample is
  (500, 10), and the resolution returns 20, the intensity of the sample (600, 20) at
  position 1; at the cursor 600 it raises \<^verbatim>\<open>IndexError\<close>, and so does the callback
  for the selection \<^verbatim>\<open>["Case 1"]\<close> with the default cursors 462.7 and 560.
\<close>

theorem resolve_reads_label_as_position:
  "\<forall>fmt. load_spectra (example_env fmt) ''data/t-1white.txt''
            = Some [\<lparr>label = 1, nm = 500, percentage = 10\<rparr>,
                    \<lparr>label = 2, nm = 600, percentage = 20\<rparr>]
     \<and> resolve [\<lparr>label = 1, nm = 500, percentage = 10\<rparr>,
                 \<lparr>label = 2, nm = 600, percentage = 20\<rparr>] 500 = Inr 20
     \<and> resolve [\<lparr>label = 1, nm = 500, percentage = 10\<rparr>,
                 \<lparr>label = 2, nm = 600, percentage = 20\<rparr>] 600 = Inl IndexError
     \<and> update_plot (example_env fmt) [462.7, 560] [''Case 1''] = Inl IndexError"
  by (simp add: load_spectra_def example_env_def example_files_def example_numeric_def
        apply_to_numeric_def range_index_def resolve_def idxmin_def abs_distance_def
        iloc_percentage_def py_index_def update_plot_def render_case_def cases_get_def cases_def
        py_getitem_def Let_def)

end
